theory Spec2Isabelle
  imports Complex_Main
begin

section \<open>JavaScript values\<close>

text \<open>
  The three handlers of \<^verbatim>\<open>server.js\<close> work on values that Express parsed from JSON
  (request bodies, query parameters) and on the answers of the gateway, so the shape of
  these values is not fixed: a field can be missing, a number, a string, an object.
  The model keeps them as JavaScript values.

  A number is an IEEE double. Every finite double is a rational, and the operations the
  handlers apply to numbers (\<^verbatim>\<open>=== 0\<close>, \<^verbatim>\<open>=== 1032\<close>, truthiness, \<^verbatim>\<open>Math.ceil\<close>)
  are exact on doubles, so a finite number is modelled by its rational value.
  \<^verbatim>\<open>-0\<close> is identified with \<^verbatim>\<open>0\<close>: both are falsy, both are \<^verbatim>\<open>=== 0\<close>.
\<close>

datatype jsnum = Fin rat | NaN | PosInf | NegInf

text \<open>
  \<open>JObj\<close> is a plain object with its own properties in order (the first entry of a
  name is the property; its prototype is \<^verbatim>\<open>Object.prototype\<close>), as \<^verbatim>\<open>JSON.parse\<close> and an
  object literal build it. \<open>JBuiltin\<close> is an object of the runtime itself:
  \<^verbatim>\<open>Object.prototype\<close> and its function-valued members.
\<close>

datatype jsval =
    JUndefined
  | JNull
  | JBool bool
  | JNum jsnum
  | JStr string
  | JArr "jsval list"
  | JObj "(string \<times> jsval) list"
  | JBuiltin string

datatype js_error =
    TypeError
  | HttpError "jsval option"
    \<comment> \<open>what axios throws: \<open>Some d\<close> when the server answered, \<open>d\<close> being
        \<^verbatim>\<open>err.response.data\<close>; \<open>None\<close> when there was no response\<close>

text \<open>
  What the language leaves to the runtime and no handler fixes: the text of a number and
  of a built-in object (\<^verbatim>\<open>ToString\<close> of them never throws), the number a text converts to
  (\<^verbatim>\<open>StringToNumber\<close>), and the properties of a string, number, boolean, array or
  built-in object. Every definition below takes them as a parameter.
\<close>

record platform =
  number_text :: "jsnum \<Rightarrow> string"
  builtin_text :: "string \<Rightarrow> string"
  number_of_text :: "string \<Rightarrow> jsnum"
  property_of_other :: "jsval \<Rightarrow> string \<Rightarrow> jsval"

fun truthy :: "jsval \<Rightarrow> bool" where
  "truthy JUndefined = False"
| "truthy JNull = False"
| "truthy (JBool b) = b"
| "truthy (JNum (Fin q)) = (q \<noteq> 0)"
| "truthy (JNum NaN) = False"
| "truthy (JNum PosInf) = True"
| "truthy (JNum NegInf) = True"
| "truthy (JStr s) = (s \<noteq> [])"
| "truthy (JArr xs) = True"
| "truthy (JObj fs) = True"
| "truthy (JBuiltin n) = True"

fun nullish :: "jsval \<Rightarrow> bool" where
  "nullish JUndefined = True"
| "nullish JNull = True"
| "nullish v = False"

text \<open>\<^verbatim>\<open>a || b\<close>\<close>

definition or_else :: "jsval \<Rightarrow> jsval \<Rightarrow> jsval" where
  "or_else a b = (if truthy a then a else b)"

text \<open>The names \<^verbatim>\<open>Object.prototype\<close> defines, \<^verbatim>\<open>__proto__\<close> (an accessor) apart.\<close>

definition object_prototype_names :: "string list" where
  "object_prototype_names =
     [''constructor'', ''__defineGetter__'', ''__defineSetter__'', ''hasOwnProperty'',
      ''__lookupGetter__'', ''__lookupSetter__'', ''isPrototypeOf'',
      ''propertyIsEnumerable'', ''toString'', ''valueOf'', ''toLocaleString'']"

definition object_prototype :: "string \<Rightarrow> jsval" where
  "object_prototype k =
     (if k \<in> set object_prototype_names then JBuiltin (''Object.prototype.'' @ k)
      else JUndefined)"

text \<open>
  \<^verbatim>\<open>v.k\<close> and \<^verbatim>\<open>v[k]\<close> for a value \<open>v\<close>: reading a property of \<^verbatim>\<open>undefined\<close> or
  \<^verbatim>\<open>null\<close> throws; a plain object answers with its own property, else with what it
  inherits from \<^verbatim>\<open>Object.prototype\<close>.
\<close>

fun get_prop :: "platform \<Rightarrow> jsval \<Rightarrow> string \<Rightarrow> js_error + jsval" where
  "get_prop pf JUndefined k = Inl TypeError"
| "get_prop pf JNull k = Inl TypeError"
| "get_prop pf (JObj fs) k =
     Inr (case map_of fs k of
            Some x \<Rightarrow> x
          | None \<Rightarrow> if k = ''__proto__'' then JBuiltin ''Object.prototype''
                    else object_prototype k)"
| "get_prop pf v k = Inr (property_of_other pf v k)"

text \<open>\<^verbatim>\<open>v?.k\<close>\<close>

definition opt_get :: "platform \<Rightarrow> jsval \<Rightarrow> string \<Rightarrow> jsval" where
  "opt_get pf v k =
     (if nullish v then JUndefined
      else case get_prop pf v k of Inl e \<Rightarrow> JUndefined | Inr x \<Rightarrow> x)"

text \<open>
  \<^verbatim>\<open>ToString\<close>, as a template literal and a computed property key apply it. A plain
  object is converted by \<^verbatim>\<open>Object.prototype.toString\<close>, unless it has an own property
  \<^verbatim>\<open>toString\<close>: that one is JSON data, not callable, and \<^verbatim>\<open>valueOf\<close> gives no
  primitive either, so the conversion throws. An array is converted by \<^verbatim>\<open>join\<close>: its
  elements converted in turn and separated by commas, \<^verbatim>\<open>undefined\<close> and \<^verbatim>\<open>null\<close>
  giving the empty text.
\<close>

fun to_string :: "platform \<Rightarrow> jsval \<Rightarrow> js_error + string"
  and join :: "platform \<Rightarrow> jsval list \<Rightarrow> js_error + string"
where
  "to_string pf (JStr s) = Inr s"
| "to_string pf JUndefined = Inr ''undefined''"
| "to_string pf JNull = Inr ''null''"
| "to_string pf (JBool b) = Inr (if b then ''true'' else ''false'')"
| "to_string pf (JNum n) = Inr (number_text pf n)"
| "to_string pf (JObj fs) =
     (if map_of fs ''toString'' \<noteq> None then Inl TypeError else Inr ''[object Object]'')"
| "to_string pf (JArr xs) = join pf xs"
| "to_string pf (JBuiltin b) = Inr (builtin_text pf b)"
| "join pf [] = Inr []"
| "join pf (x # xs) =
     (case (if nullish x then Inr [] else to_string pf x) of
        Inl e \<Rightarrow> Inl e
      | Inr s \<Rightarrow>
          if xs = [] then Inr s
          else (case join pf xs of Inl e \<Rightarrow> Inl e | Inr r \<Rightarrow> Inr (s @ '','' @ r)))"

text \<open>\<^verbatim>\<open>ToNumber\<close>, as \<^verbatim>\<open>Math.ceil\<close> applies it to its argument.\<close>

fun to_number :: "platform \<Rightarrow> jsval \<Rightarrow> js_error + jsnum" where
  "to_number pf (JNum n) = Inr n"
| "to_number pf JUndefined = Inr NaN"
| "to_number pf JNull = Inr (Fin 0)"
| "to_number pf (JBool b) = Inr (Fin (if b then 1 else 0))"
| "to_number pf (JStr s) = Inr (number_of_text pf s)"
| "to_number pf v =
     (case to_string pf v of Inl e \<Rightarrow> Inl e | Inr s \<Rightarrow> Inr (number_of_text pf s))"

fun ceil_num :: "jsnum \<Rightarrow> jsnum" where
  "ceil_num (Fin q) = Fin (of_int \<lceil>q\<rceil>)"
| "ceil_num n = n"

text \<open>\<^verbatim>\<open>Math.ceil(v)\<close>\<close>

definition math_ceil :: "platform \<Rightarrow> jsval \<Rightarrow> js_error + jsval" where
  "math_ceil pf v = (case to_number pf v of Inl e \<Rightarrow> Inl e | Inr n \<Rightarrow> Inr (JNum (ceil_num n)))"

section \<open>Plain objects used as dictionaries\<close>

text \<open>
  \<^verbatim>\<open>paymentStore\<close> and \<^verbatim>\<open>meta\<close> are object literals \<^verbatim>\<open>{}\<close> that the handlers fill by
  computed keys. Such an object has its own properties and a prototype; it starts with
  \<^verbatim>\<open>Object.prototype\<close>, and an assignment to the key \<^verbatim>\<open>__proto__\<close> replaces the prototype
  instead of adding a property.
\<close>

datatype proto = ObjectPrototype | NullPrototype | ValuePrototype jsval

record jsobj =
  own :: "string \<rightharpoonup> jsval"
  prototype :: proto

definition empty_object :: jsobj where
  "empty_object = \<lparr>own = Map.empty, prototype = ObjectPrototype\<rparr>"

text \<open>A property that \<open>p\<close>, the prototype of the object read, hands down.\<close>

fun inherited :: "platform \<Rightarrow> jsval \<Rightarrow> string \<Rightarrow> jsval" where
  "inherited pf (JObj fs) k =
     (case map_of fs k of
        Some x \<Rightarrow> x
      | None \<Rightarrow> if k = ''__proto__'' then JObj fs else object_prototype k)"
| "inherited pf p k = (if k = ''__proto__'' then p else property_of_other pf p k)"

text \<open>\<^verbatim>\<open>o[k]\<close>\<close>

definition obj_get :: "platform \<Rightarrow> jsobj \<Rightarrow> string \<Rightarrow> jsval" where
  "obj_get pf ob k =
     (case own ob k of
        Some x \<Rightarrow> x
      | None \<Rightarrow>
          (case prototype ob of
             NullPrototype \<Rightarrow> JUndefined
           | ObjectPrototype \<Rightarrow>
               if k = ''__proto__'' then JBuiltin ''Object.prototype'' else object_prototype k
           | ValuePrototype p \<Rightarrow> inherited pf p k))"

fun is_object :: "jsval \<Rightarrow> bool" where
  "is_object (JArr xs) = True"
| "is_object (JObj fs) = True"
| "is_object (JBuiltin n) = True"
| "is_object v = False"

text \<open>
  Whether an assignment to \<^verbatim>\<open>__proto__\<close> reaches the accessor of \<^verbatim>\<open>Object.prototype\<close>:
  not when the chain ends in \<^verbatim>\<open>null\<close>, and not when a JSON object on the chain has a
  data property of that name (\<^verbatim>\<open>JSON.parse\<close> creates one for the key \<^verbatim>\<open>"__proto__"\<close>).
\<close>

fun reaches_proto_accessor :: "proto \<Rightarrow> bool" where
  "reaches_proto_accessor ObjectPrototype = True"
| "reaches_proto_accessor NullPrototype = False"
| "reaches_proto_accessor (ValuePrototype (JObj fs)) = (map_of fs ''__proto__'' = None)"
| "reaches_proto_accessor (ValuePrototype p) = True"

text \<open>
  \<^verbatim>\<open>o[k] = v\<close>. The values assigned are fresh (a record literal, a parsed JSON value),
  so the new prototype never has \<open>o\<close> on its own chain.
\<close>

definition obj_set :: "jsobj \<Rightarrow> string \<Rightarrow> jsval \<Rightarrow> jsobj" where
  "obj_set ob k v =
     (if own ob k = None \<and> k = ''__proto__'' \<and> reaches_proto_accessor (prototype ob) then
        (if is_object v then ob\<lparr>prototype := ValuePrototype v\<rparr>
         else if v = JNull then ob\<lparr>prototype := NullPrototype\<rparr>
         else ob)
      else ob\<lparr>own := (own ob)(k \<mapsto> v)\<rparr>)"

section \<open>Responses\<close>

text \<open>
  What a handler ends with: \<^verbatim>\<open>res.status(c).json(b)\<close> (\<^verbatim>\<open>res.json(b)\<close> is status 200),
  or an exception that leaves the handler.
\<close>

datatype outcome = Reply nat jsval | Threw js_error

section \<open>POST /api/mpesa/callback\<close>

definition accepted :: jsval where
  "accepted = JObj [(''ResultCode'', JNum (Fin 0)), (''ResultDesc'', JStr ''Accepted'')]"

text \<open>The callback of \<^verbatim>\<open>forEach\<close>: \<^verbatim>\<open>item => { meta[item.Name] = item.Value; }\<close>\<close>

definition put_item :: "platform \<Rightarrow> jsobj \<Rightarrow> jsval \<Rightarrow> js_error + jsobj" where
  "put_item pf meta item =
     (case get_prop pf item ''Name'' of
        Inl e \<Rightarrow> Inl e
      | Inr name \<Rightarrow>
          (case get_prop pf item ''Value'' of
             Inl e \<Rightarrow> Inl e
           | Inr val \<Rightarrow>
               (case to_string pf name of
                  Inl e \<Rightarrow> Inl e
                | Inr k \<Rightarrow> Inr (obj_set meta k val))))"

fun for_each_item :: "platform \<Rightarrow> jsobj \<Rightarrow> jsval list \<Rightarrow> js_error + jsobj" where
  "for_each_item pf meta [] = Inr meta"
| "for_each_item pf meta (item # items) =
     (case put_item pf meta item of
        Inl e \<Rightarrow> Inl e
      | Inr meta' \<Rightarrow> for_each_item pf meta' items)"

text \<open>
  \<^verbatim>\<open>const meta = {}; CallbackMetadata?.Item?.forEach(...)\<close>. Only an array has a
  \<^verbatim>\<open>forEach\<close>: on any other value that is not \<^verbatim>\<open>undefined\<close> or \<^verbatim>\<open>null\<close> the call
  throws.
\<close>

definition collect_meta :: "platform \<Rightarrow> jsval \<Rightarrow> js_error + jsobj" where
  "collect_meta pf cm =
     (case opt_get pf cm ''Item'' of
        JUndefined \<Rightarrow> Inr empty_object
      | JNull \<Rightarrow> Inr empty_object
      | JArr items \<Rightarrow> for_each_item pf empty_object items
      | _ \<Rightarrow> Inl TypeError)"

definition success_record :: "platform \<Rightarrow> jsobj \<Rightarrow> jsval" where
  "success_record pf meta =
     JObj [(''status'', JStr ''success''),
           (''amount'', obj_get pf meta ''Amount''),
           (''receipt'', obj_get pf meta ''MpesaReceiptNumber''),
           (''phone'', obj_get pf meta ''PhoneNumber''),
           (''date'', obj_get pf meta ''TransactionDate'')]"

definition failure_record :: "jsval \<Rightarrow> jsval \<Rightarrow> jsval" where
  "failure_record code desc =
     JObj [(''status'', JStr (if code = JNum (Fin 1032) then ''cancelled'' else ''failed'')),
           (''message'', desc)]"

text \<open>
  The handler, from the store before and \<^verbatim>\<open>req.body\<close> to the outcome and the store
  after. The result object is truthy where it is destructured, so reading its four
  properties cannot throw. The two template literals that are logged convert their values
  to strings, which can throw: the first before anything is written, the second after the
  failure record is.
\<close>

definition mpesa_callback :: "platform \<Rightarrow> jsobj \<Rightarrow> jsval \<Rightarrow> outcome \<times> jsobj" where
  "mpesa_callback pf paymentStore req_body =
     (let body = opt_get pf (opt_get pf req_body ''Body'') ''stkCallback'' in
      if \<not> truthy body then (Reply 200 accepted, paymentStore)
      else
        let CheckoutRequestID = opt_get pf body ''CheckoutRequestID'';
            ResultCode = opt_get pf body ''ResultCode'';
            ResultDesc = opt_get pf body ''ResultDesc'';
            CallbackMetadata = opt_get pf body ''CallbackMetadata''
        in
        case to_string pf CheckoutRequestID of
          Inl e \<Rightarrow> (Threw e, paymentStore)
        | Inr key \<Rightarrow>
            (case to_string pf ResultCode of
               Inl e \<Rightarrow> (Threw e, paymentStore)
             | Inr _ \<Rightarrow>
                 if ResultCode = JNum (Fin 0) then
                   (case collect_meta pf CallbackMetadata of
                      Inl e \<Rightarrow> (Threw e, paymentStore)
                    | Inr meta \<Rightarrow>
                        (Reply 200 accepted,
                         obj_set paymentStore key (success_record pf meta)))
                 else
                   (let store' = obj_set paymentStore key (failure_record ResultCode ResultDesc)
                    in case to_string pf ResultDesc of
                         Inl e \<Rightarrow> (Threw e, store')
                       | Inr _ \<Rightarrow> (Reply 200 accepted, store'))))"

section \<open>GET /api/stk-status\<close>

definition pending_record :: jsval where
  "pending_record = JObj [(''status'', JStr ''pending'')]"

text \<open>\<open>checkoutId\<close> is \<^verbatim>\<open>req.query.checkoutId\<close>, \<open>JUndefined\<close> when the query has none.\<close>

definition stk_status :: "platform \<Rightarrow> jsobj \<Rightarrow> jsval \<Rightarrow> outcome \<times> jsobj" where
  "stk_status pf paymentStore checkoutId =
     (if \<not> truthy checkoutId then
        (Reply 400 (JObj [(''error'', JStr ''checkoutId required'')]), paymentStore)
      else
        case to_string pf checkoutId of
          Inl e \<Rightarrow> (Threw e, paymentStore)
        | Inr key \<Rightarrow>
            (Reply 200 (or_else (obj_get pf paymentStore key) pending_record), paymentStore))"

section \<open>POST /api/stk-push\<close>

text \<open>
  The surroundings of the handler: the variables of \<^verbatim>\<open>process.env\<close> (\<open>None\<close> when
  unset), the clock, \<^verbatim>\<open>Buffer.from(s).toString('base64')\<close>, and the two servers axios
  talks to. A server is given by what the awaited call does with the request it gets: it
  returns the \<^verbatim>\<open>data\<close> of the response or throws.
\<close>

record env =
  CONSUMER_KEY :: "string option"
  CONSUMER_SECRET :: "string option"
  SHORTCODE :: "string option"
  PASSKEY :: "string option"
  CALLBACK_URL :: "string option"
  now_iso :: string
  base64 :: "string \<Rightarrow> string"
  oauth_server :: "string \<Rightarrow> js_error + jsval"
  stk_server :: "string \<Rightarrow> jsval \<Rightarrow> js_error + jsval"

text \<open>A variable of the environment inside a template literal, and as a value.\<close>

definition env_text :: "string option \<Rightarrow> string" where
  "env_text v = (case v of None \<Rightarrow> ''undefined'' | Some s \<Rightarrow> s)"

definition env_value :: "string option \<Rightarrow> jsval" where
  "env_value v = (case v of None \<Rightarrow> JUndefined | Some s \<Rightarrow> JStr s)"

text \<open>The calls a handler makes to the outside, in order, each with its Authorization header.\<close>

datatype call = OAuthGet string | StkPost string jsval

definition oauth_header :: "env \<Rightarrow> string" where
  "oauth_header e =
     ''Basic '' @ base64 e (env_text (CONSUMER_KEY e) @ '':'' @ env_text (CONSUMER_SECRET e))"

definition getAccessToken :: "platform \<Rightarrow> env \<Rightarrow> js_error + jsval" where
  "getAccessToken pf e =
     (case oauth_server e (oauth_header e) of
        Inl err \<Rightarrow> Inl err
      | Inr data \<Rightarrow> get_prop pf data ''access_token'')"

definition is_digit :: "char \<Rightarrow> bool" where
  "is_digit c = (c \<in> set ''0123456789'')"

definition getTimestampAndPassword :: "env \<Rightarrow> string \<times> string" where
  "getTimestampAndPassword e =
     (let timestamp = take 14 (filter is_digit (now_iso e));
          password = base64 e (env_text (SHORTCODE e) @ env_text (PASSKEY e) @ timestamp)
      in (timestamp, password))"

text \<open>The default memo; its dash is U+2013, here in UTF-8.\<close>

definition default_description :: string where
  "default_description =
     ''Dominic Oyagi '' @ [CHR 0xE2, CHR 0x80, CHR 0x93] @ '' Mathare Hospital Fund''"

definition stk_payload :: "env \<Rightarrow> jsval \<Rightarrow> jsval \<Rightarrow> jsval \<Rightarrow> jsval" where
  "stk_payload e rounded phone description =
     (let (timestamp, password) = getTimestampAndPassword e in
      JObj [(''BusinessShortCode'', env_value (SHORTCODE e)),
            (''Password'', JStr password),
            (''Timestamp'', JStr timestamp),
            (''TransactionType'', JStr ''CustomerBuyGoodsOnline''),
            (''Amount'', rounded),
            (''PartyA'', phone),
            (''PartyB'', env_value (SHORTCODE e)),
            (''PhoneNumber'', phone),
            (''CallBackURL'', env_value (CALLBACK_URL e)),
            (''AccountReference'', JStr ''DominicOyagi''),
            (''TransactionDesc'', or_else description (JStr default_description))])"

text \<open>
  The body of \<^verbatim>\<open>try\<close>: the value returned with the store after, or the exception
  thrown, and the calls made up to there.
\<close>

definition stk_push_try ::
  "platform \<Rightarrow> env \<Rightarrow> jsobj \<Rightarrow> jsval \<Rightarrow> jsval \<Rightarrow> jsval \<Rightarrow> (js_error + jsval \<times> jsobj) \<times> call list"
where
  "stk_push_try pf e paymentStore phone amount description =
     (let token_call = OAuthGet (oauth_header e) in
      case getAccessToken pf e of
        Inl err \<Rightarrow> (Inl err, [token_call])
      | Inr token \<Rightarrow>
          (case math_ceil pf amount of
             Inl err \<Rightarrow> (Inl err, [token_call])
           | Inr rounded \<Rightarrow>
               (case to_string pf token of
                  Inl err \<Rightarrow> (Inl err, [token_call])
                | Inr t \<Rightarrow>
                    (let payload = stk_payload e rounded phone description;
                         bearer = ''Bearer '' @ t;
                         calls = [token_call, StkPost bearer payload]
                     in case stk_server e bearer payload of
                          Inl err \<Rightarrow> (Inl err, calls)
                        | Inr data \<Rightarrow>
                            (case get_prop pf data ''CheckoutRequestID'' of
                               Inl err \<Rightarrow> (Inl err, calls)
                             | Inr cid \<Rightarrow>
                                 if truthy cid then
                                   (case to_string pf cid of
                                      Inl err \<Rightarrow> (Inl err, calls)
                                    | Inr key \<Rightarrow>
                                        (Inr (data, obj_set paymentStore key pending_record),
                                         calls))
                                 else (Inr (data, paymentStore), calls))))))"

text \<open>\<^verbatim>\<open>err?.response?.data?.errorMessage\<close>\<close>

fun response_error_message :: "platform \<Rightarrow> js_error \<Rightarrow> jsval" where
  "response_error_message pf TypeError = JUndefined"
| "response_error_message pf (HttpError None) = JUndefined"
| "response_error_message pf (HttpError (Some d)) = opt_get pf d ''errorMessage''"

definition fallback_message :: string where
  "fallback_message = ''STK push failed. Please try again.''"

text \<open>
  The handler: outcome, store after, calls made. Destructuring \<^verbatim>\<open>req.body\<close> throws when
  the body is \<^verbatim>\<open>undefined\<close> or \<^verbatim>\<open>null\<close>; it stands before \<^verbatim>\<open>try\<close>.
\<close>

definition stk_push ::
  "platform \<Rightarrow> env \<Rightarrow> jsobj \<Rightarrow> jsval \<Rightarrow> outcome \<times> jsobj \<times> call list"
where
  "stk_push pf e paymentStore req_body =
     (if nullish req_body then (Threw TypeError, paymentStore, [])
      else
        let phone = opt_get pf req_body ''phone'';
            amount = opt_get pf req_body ''amount'';
            description = opt_get pf req_body ''description''
        in
        if \<not> truthy phone \<or> \<not> truthy amount then
          (Reply 400 (JObj [(''errorMessage'', JStr ''phone and amount are required'')]),
           paymentStore, [])
        else
          case stk_push_try pf e paymentStore phone amount description of
            (Inr (data, store'), calls) \<Rightarrow> (Reply 200 data, store', calls)
          | (Inl err, calls) \<Rightarrow>
              (Reply 500
                 (JObj [(''errorMessage'',
                         or_else (response_error_message pf err) (JStr fallback_message))]),
               paymentStore, calls))"

section \<open>Vocabulary of the specification\<close>

text \<open>A metadata item is a name/value pair: an object whose \<^verbatim>\<open>Name\<close> is a string.\<close>

definition item_name :: "jsval \<Rightarrow> string option" where
  "item_name item =
     (case item of
        JObj fs \<Rightarrow> (case map_of fs ''Name'' of Some (JStr n) \<Rightarrow> Some n | _ \<Rightarrow> None)
      | _ \<Rightarrow> None)"

definition item_value :: "jsval \<Rightarrow> jsval" where
  "item_value item =
     (case item of
        JObj fs \<Rightarrow> (case map_of fs ''Value'' of Some v \<Rightarrow> v | None \<Rightarrow> JUndefined)
      | _ \<Rightarrow> JUndefined)"

definition name_value_pair :: "jsval \<Rightarrow> bool" where
  "name_value_pair item = (item_name item \<noteq> None)"

text \<open>The optional list of metadata items: none when the field is absent.\<close>

definition item_list :: "jsval \<Rightarrow> jsval list option" where
  "item_list v =
     (case v of JUndefined \<Rightarrow> Some [] | JNull \<Rightarrow> Some [] | JArr xs \<Rightarrow> Some xs | _ \<Rightarrow> None)"

text \<open>
  What the metadata items say about the field \<open>n\<close>: the value of the last item of that
  name, nothing (\<^verbatim>\<open>undefined\<close>) when no item has the name.
\<close>

definition metadata_value :: "string \<Rightarrow> jsval list \<Rightarrow> jsval" where
  "metadata_value n items =
     (case filter (\<lambda>i. item_name i = Some n) items of
        [] \<Rightarrow> JUndefined
      | x # xs \<Rightarrow> item_value (last (x # xs)))"



section \<open>Requests the theorems are run on\<close>

text \<open>The envelope the gateway posts, around the result object \<open>cb\<close>.\<close>

definition notification :: "jsval \<Rightarrow> jsval" where
  "notification cb = JObj [(''Body'', JObj [(''stkCallback'', cb)])]"

definition two_items :: "jsval list" where
  "two_items =
     [JObj [(''Name'', JStr ''Amount''), (''Value'', JNum (Fin 11))],
      JObj [(''Name'', JStr ''MpesaReceiptNumber''), (''Value'', JStr ''ABC123'')]]"

definition paid_callback :: jsval where
  "paid_callback =
     JObj [(''CheckoutRequestID'', JStr ''ws_1''),
           (''ResultCode'', JNum (Fin 0)),
           (''CallbackMetadata'', JObj [(''Item'', JArr two_items)])]"

definition null_item_callback :: jsval where
  "null_item_callback =
     JObj [(''CheckoutRequestID'', JStr ''ws_1''),
           (''ResultCode'', JNum (Fin 0)),
           (''CallbackMetadata'', JObj [(''Item'', JArr [JNull])])]"

definition bare_paid_callback :: jsval where
  "bare_paid_callback =
     JObj [(''CheckoutRequestID'', JStr ''ws_1''), (''ResultCode'', JNum (Fin 0))]"

definition failed_callback :: "rat \<Rightarrow> jsval" where
  "failed_callback code =
     JObj [(''CheckoutRequestID'', JStr ''ws_1''),
           (''ResultCode'', JNum (Fin code)),
           (''ResultDesc'', JStr ''Request cancelled by user'')]"

text \<open>
  An environment whose two servers answer the same to every request; the encoder stays
  a parameter.
\<close>

definition gateway_env ::
  "(string \<Rightarrow> string) \<Rightarrow> js_error + jsval \<Rightarrow> js_error + jsval \<Rightarrow> env"
where
  "gateway_env enc token_answer stk_answer =
     \<lparr>CONSUMER_KEY = Some ''key'', CONSUMER_SECRET = Some ''secret'',
      SHORTCODE = Some ''174379'', PASSKEY = Some ''passkey'',
      CALLBACK_URL = Some ''https://example.org/api/mpesa/callback'',
      now_iso = ''2026-01-02T03:04:05.678Z'', base64 = enc,
      oauth_server = (\<lambda>h. token_answer), stk_server = (\<lambda>b p. stk_answer)\<rparr>"

definition push_request :: jsval where
  "push_request = JObj [(''phone'', JStr ''254700000000''), (''amount'', JNum (Fin (104 / 10)))]"

definition token_granted :: "js_error + jsval" where
  "token_granted = Inr (JObj [(''access_token'', JStr ''T'')])"

definition push_acknowledged :: "js_error + jsval" where
  "push_acknowledged = Inr (JObj [(''CheckoutRequestID'', JStr ''ws_1'')])"




section \<open>Properties of the objects\<close>

lemma object_prototype_undefined:
  "k \<notin> set object_prototype_names \<Longrightarrow> object_prototype k = JUndefined"
  by (simp add: object_prototype_def)

text \<open>
  A record written under a key is what a read of that key returns, also under the key
  \<^verbatim>\<open>__proto__\<close>, where the record becomes the prototype and the accessor hands it back.
\<close>

lemma obj_get_obj_set_same:
  assumes "map_of fs ''__proto__'' = None"
  shows "obj_get pf (obj_set ob k (JObj fs)) k = JObj fs"
  using assms by (simp add: obj_get_def obj_set_def)



lemmas run_defs =
  opt_get_def notification_def object_prototype_def object_prototype_names_def

section \<open>The Result Reconciler\<close>

subsection \<open>Flattening the metadata\<close>

lemma put_item_pair:
  assumes "item_name item = Some n"
  shows "put_item pf meta item = Inr (obj_set meta n (item_value item))"
proof -
  from assms obtain fs where fs: "item = JObj fs" "map_of fs ''Name'' = Some (JStr n)"
    by (auto simp: item_name_def split: jsval.splits option.splits)
  have "get_prop pf item ''Value'' = Inr (item_value item)"
    using fs by (simp add: item_value_def object_prototype_def object_prototype_names_def
        split: option.splits)
  then show ?thesis
    using fs by (simp add: put_item_def)
qed

text \<open>Over name/value pairs the loop never throws.\<close>

lemma for_each_item_total:
  assumes "list_all name_value_pair items"
  shows "\<exists>meta'. for_each_item pf meta items = Inr meta'"
  using assms
proof (induction items arbitrary: meta)
  case Nil
  then show ?case by simp
next
  case (Cons item items)
  from Cons.prems obtain n where "item_name item = Some n"
    by (auto simp: name_value_pair_def)
  then have "put_item pf meta item = Inr (obj_set meta n (item_value item))"
    by (rule put_item_pair)
  moreover from Cons.prems have "list_all name_value_pair items" by simp
  from Cons.IH[OF this, of "obj_set meta n (item_value item)"]
  obtain meta' where "for_each_item pf (obj_set meta n (item_value item)) items = Inr meta'" ..
  ultimately show ?case by simp
qed

text \<open>
  When no item is named \<^verbatim>\<open>__proto__\<close> the prototype is left alone, and the last item
  of a name decides the property of that name.
\<close>

lemma for_each_item_pairs:
  assumes "list_all name_value_pair items"
    and "Some ''__proto__'' \<notin> set (map item_name items)"
    and "prototype meta = ObjectPrototype"
  shows "\<exists>meta'. for_each_item pf meta items = Inr meta' \<and>
           prototype meta' = ObjectPrototype \<and>
           (\<forall>n. own meta' n =
              (case filter (\<lambda>i. item_name i = Some n) items of
                 [] \<Rightarrow> own meta n
               | x # xs \<Rightarrow> Some (item_value (last (x # xs)))))"
  using assms
proof (induction items arbitrary: meta)
  case Nil
  then show ?case by simp
next
  case (Cons item items)
  from Cons.prems obtain n where n: "item_name item = Some n" "n \<noteq> ''__proto__''"
    by (auto simp: name_value_pair_def)
  let ?m = "meta\<lparr>own := (own meta)(n \<mapsto> item_value item)\<rparr>"
  have "obj_set meta n (item_value item) = ?m"
    using n(2) by (simp add: obj_set_def)
  with put_item_pair[OF n(1), of pf meta] have put: "put_item pf meta item = Inr ?m"
    by simp
  from Cons.prems have "list_all name_value_pair items"
    and "Some ''__proto__'' \<notin> set (map item_name items)"
    and "prototype ?m = ObjectPrototype"
    by simp_all
  from Cons.IH[OF this] obtain meta' where m': "for_each_item pf ?m items = Inr meta'"
    "prototype meta' = ObjectPrototype"
    "\<forall>k. own meta' k =
       (case filter (\<lambda>i. item_name i = Some k) items of
          [] \<Rightarrow> own ?m k
        | x # xs \<Rightarrow> Some (item_value (last (x # xs))))"
    by blast
  have "for_each_item pf meta (item # items) = Inr meta'"
    using put m'(1) by simp
  moreover have "own meta' k =
       (case filter (\<lambda>i. item_name i = Some k) (item # items) of
          [] \<Rightarrow> own meta k
        | x # xs \<Rightarrow> Some (item_value (last (x # xs))))" for k
    using m'(3)[rule_format, of k] n(1) by (auto split: list.splits)
  ultimately show ?case using m'(2) by blast
qed

lemma collect_meta_total:
  assumes "item_list (opt_get pf cm ''Item'') = Some items" and "list_all name_value_pair items"
  shows "\<exists>meta. collect_meta pf cm = Inr meta"
proof (cases "opt_get pf cm ''Item''")
  case (JArr xs)
  with assms(1) have "xs = items" by (simp add: item_list_def)
  with JArr for_each_item_total[OF assms(2), of pf empty_object] show ?thesis
    by (simp add: collect_meta_def)
qed (use assms(1) in \<open>simp_all add: item_list_def collect_meta_def\<close>)

lemma collect_meta_items:
  assumes "item_list (opt_get pf cm ''Item'') = Some items" and "list_all name_value_pair items"
    and "Some ''__proto__'' \<notin> set (map item_name items)"
    and "collect_meta pf cm = Inr meta"
    and "n \<notin> set object_prototype_names" and "n \<noteq> ''__proto__''"
  shows "obj_get pf meta n = metadata_value n items"
proof (cases "opt_get pf cm ''Item''")
  case (JArr xs)
  with assms(1) have arr: "opt_get pf cm ''Item'' = JArr items"
    by (simp add: item_list_def)
  from for_each_item_pairs[OF assms(2,3), of empty_object pf]
  obtain meta' where m: "for_each_item pf empty_object items = Inr meta'"
    "prototype meta' = ObjectPrototype"
    "\<forall>n. own meta' n =
       (case filter (\<lambda>i. item_name i = Some n) items of
          [] \<Rightarrow> own empty_object n
        | x # xs \<Rightarrow> Some (item_value (last (x # xs))))"
    by (auto simp: empty_object_def)
  have "meta' = meta"
    using arr m(1) assms(4) by (simp add: collect_meta_def)
  with m(2) m(3)[rule_format, of n] assms(5,6) show ?thesis
    by (auto simp: obj_get_def metadata_value_def empty_object_def object_prototype_undefined
        split: list.splits)
next
  case JUndefined
  with assms(1) have "items = []" by (simp add: item_list_def)
  with JUndefined assms(4,5,6) show ?thesis
    by (auto simp: collect_meta_def obj_get_def empty_object_def metadata_value_def
        object_prototype_undefined)
next
  case JNull
  with assms(1) have "items = []" by (simp add: item_list_def)
  with JNull assms(4,5,6) show ?thesis
    by (auto simp: collect_meta_def obj_get_def empty_object_def metadata_value_def
        object_prototype_undefined)
qed (use assms(1) in \<open>simp_all add: item_list_def\<close>)

text \<open>
  An identifier that is an object with a property \<^verbatim>\<open>toString\<close> cannot be turned into a
  key: the first log line throws, before anything is written.
\<close>

lemma callback_object_identifier_throws:
  "mpesa_callback pf st
     (notification (JObj [(''CheckoutRequestID'', JObj [(''toString'', JNum (Fin 1))]),
                          (''ResultCode'', JNum (Fin 1))])) =
   (Threw TypeError, st)"
  by (simp add: mpesa_callback_def run_defs)

text \<open>
  An item named \<^verbatim>\<open>__proto__\<close> whose value is an object becomes the prototype of
  \<^verbatim>\<open>meta\<close>, and the fields are then read through it.
\<close>

lemma proto_item_fills_amount:
  "\<exists>meta. collect_meta pf
            (JObj [(''Item'', JArr [JObj [(''Name'', JStr ''__proto__''),
                                          (''Value'', JObj [(''Amount'', JNum (Fin 5))])]])]) =
            Inr meta
        \<and> obj_get pf meta ''Amount'' = JNum (Fin 5)"
  by (simp add: collect_meta_def run_defs put_item_def obj_set_def obj_get_def empty_object_def)

subsection \<open>A notification of success\<close>

text \<open>
  Claim C1, as the specification states it: every notification whose result object is
  present and whose result code is 0 leaves a record of status \<^verbatim>\<open>success\<close> with its four
  success fields filled in from the metadata items. Two notifications of that kind show
  otherwise. For the item list \<^verbatim>\<open>[null]\<close> the callback of \<^verbatim>\<open>forEach\<close> throws and no
  record is written. For a list with an amount and a receipt only, the record has no payer
  phone (and no settlement time).
\<close>

theorem callback_success_not_always_recorded:
  "\<forall>pf st.
       mpesa_callback pf st (notification null_item_callback) = (Threw TypeError, st)
     \<and> opt_get pf
         (obj_get pf (snd (mpesa_callback pf empty_object (notification paid_callback))) ''ws_1'')
         ''phone'' = JUndefined"
  by (simp add: mpesa_callback_def run_defs null_item_callback_def paid_callback_def
      two_items_def collect_meta_def put_item_def obj_set_def obj_get_def empty_object_def
      success_record_def)

text \<open>
  Claim C1, amended. A notification whose result object is present, whose correlation
  identifier is a string, whose result code is 0 and whose metadata is an optional list of
  name/value pairs leaves, under its identifier, a record of status \<^verbatim>\<open>success\<close> with the
  four fields amount, receipt, payer phone and settlement time. When no item is named
  \<^verbatim>\<open>__proto__\<close>, each field holds the value of the last item of its name (\<^verbatim>\<open>Amount\<close>,
  \<^verbatim>\<open>MpesaReceiptNumber\<close>, \<^verbatim>\<open>PhoneNumber\<close>, \<^verbatim>\<open>TransactionDate\<close>) and is
  \<^verbatim>\<open>undefined\<close> when no item has the name.
\<close>

theorem callback_success_record:
  assumes "opt_get pf (opt_get pf req_body ''Body'') ''stkCallback'' = body" and "truthy body"
    and "opt_get pf body ''CheckoutRequestID'' = JStr key"
    and "opt_get pf body ''ResultCode'' = JNum (Fin 0)"
    and "item_list (opt_get pf (opt_get pf body ''CallbackMetadata'') ''Item'') = Some items"
    and "list_all name_value_pair items"
  shows "\<exists>amount receipt phone date.
           obj_get pf (snd (mpesa_callback pf paymentStore req_body)) key =
             JObj [(''status'', JStr ''success''), (''amount'', amount), (''receipt'', receipt),
                   (''phone'', phone), (''date'', date)]
         \<and> (Some ''__proto__'' \<notin> set (map item_name items) \<longrightarrow>
              amount = metadata_value ''Amount'' items
            \<and> receipt = metadata_value ''MpesaReceiptNumber'' items
            \<and> phone = metadata_value ''PhoneNumber'' items
            \<and> date = metadata_value ''TransactionDate'' items)"
proof -
  let ?cm = "opt_get pf body ''CallbackMetadata''"
  from collect_meta_total[OF assms(5,6)]
  obtain meta where meta: "collect_meta pf ?cm = Inr meta" ..
  have "snd (mpesa_callback pf paymentStore req_body) =
          obj_set paymentStore key (success_record pf meta)"
    using assms(1-4) meta by (simp add: mpesa_callback_def)
  then have written: "obj_get pf (snd (mpesa_callback pf paymentStore req_body)) key =
      JObj [(''status'', JStr ''success''),
            (''amount'', obj_get pf meta ''Amount''),
            (''receipt'', obj_get pf meta ''MpesaReceiptNumber''),
            (''phone'', obj_get pf meta ''PhoneNumber''),
            (''date'', obj_get pf meta ''TransactionDate'')]"
    by (simp add: success_record_def obj_get_obj_set_same)
  have "obj_get pf meta ''Amount'' = metadata_value ''Amount'' items
      \<and> obj_get pf meta ''MpesaReceiptNumber'' = metadata_value ''MpesaReceiptNumber'' items
      \<and> obj_get pf meta ''PhoneNumber'' = metadata_value ''PhoneNumber'' items
      \<and> obj_get pf meta ''TransactionDate'' = metadata_value ''TransactionDate'' items"
    if plain: "Some ''__proto__'' \<notin> set (map item_name items)"
    using collect_meta_items[OF assms(5,6) plain meta]
    by (simp add: object_prototype_names_def)
  with written show ?thesis by blast
qed

theorem callback_success_record_witness:
  "\<forall>pf. obj_get pf (snd (mpesa_callback pf empty_object (notification paid_callback))) ''ws_1'' =
     JObj [(''status'', JStr ''success''), (''amount'', JNum (Fin 11)),
           (''receipt'', JStr ''ABC123''), (''phone'', JUndefined), (''date'', JUndefined)]"
proof
  fix pf
  have "\<exists>amount receipt phone date.
      obj_get pf (snd (mpesa_callback pf empty_object (notification paid_callback))) ''ws_1'' =
        JObj [(''status'', JStr ''success''), (''amount'', amount), (''receipt'', receipt),
              (''phone'', phone), (''date'', date)]
      \<and> (Some ''__proto__'' \<notin> set (map item_name two_items) \<longrightarrow>
              amount = metadata_value ''Amount'' two_items
            \<and> receipt = metadata_value ''MpesaReceiptNumber'' two_items
            \<and> phone = metadata_value ''PhoneNumber'' two_items
            \<and> date = metadata_value ''TransactionDate'' two_items)"
    by (rule callback_success_record[where body = paid_callback])
      (simp_all add: run_defs paid_callback_def two_items_def item_list_def
        name_value_pair_def item_name_def)
  moreover have "Some ''__proto__'' \<notin> set (map item_name two_items)"
    by (simp add: two_items_def item_name_def)
  ultimately have
    "obj_get pf (snd (mpesa_callback pf empty_object (notification paid_callback))) ''ws_1'' =
       JObj [(''status'', JStr ''success''),
             (''amount'', metadata_value ''Amount'' two_items),
             (''receipt'', metadata_value ''MpesaReceiptNumber'' two_items),
             (''phone'', metadata_value ''PhoneNumber'' two_items),
             (''date'', metadata_value ''TransactionDate'' two_items)]"
    by auto
  then show "obj_get pf (snd (mpesa_callback pf empty_object (notification paid_callback))) ''ws_1'' =
     JObj [(''status'', JStr ''success''), (''amount'', JNum (Fin 11)),
           (''receipt'', JStr ''ABC123''), (''phone'', JUndefined), (''date'', JUndefined)]"
    by (simp add: metadata_value_def two_items_def item_name_def item_value_def)
qed

subsection \<open>A notification of failure\<close>

text \<open>
  Claim C2. A notification whose result object is present and whose result code is a
  number other than 0 leaves, under its correlation identifier, a record whose status is
  \<^verbatim>\<open>cancelled\<close> when the code is 1032 and \<^verbatim>\<open>failed\<close> for every other code, and whose
  message is the result description of the notification.
\<close>

theorem callback_failure_record:
  assumes "opt_get pf (opt_get pf req_body ''Body'') ''stkCallback'' = body" and "truthy body"
    and "opt_get pf body ''CheckoutRequestID'' = JStr key"
    and "opt_get pf body ''ResultCode'' = JNum n" and "n \<noteq> Fin 0"
  shows "obj_get pf (snd (mpesa_callback pf paymentStore req_body)) key =
           JObj [(''status'', JStr (if n = Fin 1032 then ''cancelled'' else ''failed'')),
                 (''message'', opt_get pf body ''ResultDesc'')]"
proof -
  have "snd (mpesa_callback pf paymentStore req_body) =
          obj_set paymentStore key
            (failure_record (JNum n) (opt_get pf body ''ResultDesc''))"
    using assms by (simp add: mpesa_callback_def Let_def split: sum.splits)
  then show ?thesis
    by (simp add: failure_record_def obj_get_obj_set_same)
qed

theorem callback_failure_record_witness:
  "\<forall>pf. obj_get pf (snd (mpesa_callback pf empty_object (notification (failed_callback 1032))))
           ''ws_1'' =
          JObj [(''status'', JStr ''cancelled''),
                (''message'', JStr ''Request cancelled by user'')]
      \<and> obj_get pf (snd (mpesa_callback pf empty_object (notification (failed_callback 1))))
           ''ws_1'' =
          JObj [(''status'', JStr ''failed''),
                (''message'', JStr ''Request cancelled by user'')]"
proof (intro allI conjI)
  fix pf
  show "obj_get pf (snd (mpesa_callback pf empty_object (notification (failed_callback 1032))))
           ''ws_1'' =
          JObj [(''status'', JStr ''cancelled''),
                (''message'', JStr ''Request cancelled by user'')]"
    using callback_failure_record[where pf = pf and body = "failed_callback 1032"
        and req_body = "notification (failed_callback 1032)" and key = "''ws_1''"
        and n = "Fin 1032" and paymentStore = empty_object]
    by (simp add: run_defs failed_callback_def)
  show "obj_get pf (snd (mpesa_callback pf empty_object (notification (failed_callback 1))))
           ''ws_1'' =
          JObj [(''status'', JStr ''failed''),
                (''message'', JStr ''Request cancelled by user'')]"
    using callback_failure_record[where pf = pf and body = "failed_callback 1"
        and req_body = "notification (failed_callback 1)" and key = "''ws_1''"
        and n = "Fin 1" and paymentStore = empty_object]
    by (simp add: run_defs failed_callback_def)
qed

subsection \<open>A notification without result object\<close>

text \<open>
  Claim C4. A notification whose body lacks the nested result object is answered with
  status 200 and the fixed acknowledgment, and the payment store stays as it was.
\<close>

theorem callback_malformed_accepted:
  assumes "\<not> truthy (opt_get pf (opt_get pf req_body ''Body'') ''stkCallback'')"
  shows "mpesa_callback pf paymentStore req_body =
           (Reply 200 (JObj [(''ResultCode'', JNum (Fin 0)), (''ResultDesc'', JStr ''Accepted'')]),
            paymentStore)"
  using assms by (simp add: mpesa_callback_def accepted_def)

theorem callback_malformed_accepted_witness:
  "\<forall>pf st. mpesa_callback pf st JUndefined = (Reply 200 accepted, st)
        \<and> mpesa_callback pf st (JObj []) = (Reply 200 accepted, st)
        \<and> mpesa_callback pf st (JObj [(''Body'', JObj [(''ResultCode'', JNum (Fin 0))])]) =
            (Reply 200 accepted, st)"
proof (intro allI conjI)
  fix pf st
  show "mpesa_callback pf st JUndefined = (Reply 200 accepted, st)"
    using callback_malformed_accepted[of pf JUndefined st]
    by (simp add: run_defs accepted_def)
  show "mpesa_callback pf st (JObj []) = (Reply 200 accepted, st)"
    using callback_malformed_accepted[of pf "JObj []" st]
    by (simp add: run_defs accepted_def)
  show "mpesa_callback pf st (JObj [(''Body'', JObj [(''ResultCode'', JNum (Fin 0))])]) =
          (Reply 200 accepted, st)"
    using callback_malformed_accepted
      [of pf "JObj [(''Body'', JObj [(''ResultCode'', JNum (Fin 0))])]" st]
    by (simp add: run_defs accepted_def)
qed

subsection \<open>A notification of success without metadata\<close>

text \<open>
  Claim C10. A notification whose result object is present with result code 0 and
  whose metadata item list is absent is handled to the end: the record written under the
  correlation identifier has status \<^verbatim>\<open>success\<close> and no other success field, and the answer
  is the fixed acknowledgment.
\<close>

theorem callback_success_without_items:
  assumes "opt_get pf (opt_get pf req_body ''Body'') ''stkCallback'' = body" and "truthy body"
    and "opt_get pf body ''CheckoutRequestID'' = JStr key"
    and "opt_get pf body ''ResultCode'' = JNum (Fin 0)"
    and "nullish (opt_get pf (opt_get pf body ''CallbackMetadata'') ''Item'')"
  shows "mpesa_callback pf paymentStore req_body =
           (Reply 200 (JObj [(''ResultCode'', JNum (Fin 0)), (''ResultDesc'', JStr ''Accepted'')]),
            obj_set paymentStore key
              (JObj [(''status'', JStr ''success''), (''amount'', JUndefined),
                     (''receipt'', JUndefined), (''phone'', JUndefined),
                     (''date'', JUndefined)]))
         \<and> obj_get pf (snd (mpesa_callback pf paymentStore req_body)) key =
              JObj [(''status'', JStr ''success''), (''amount'', JUndefined),
                    (''receipt'', JUndefined), (''phone'', JUndefined),
                    (''date'', JUndefined)]"
proof -
  have "collect_meta pf (opt_get pf body ''CallbackMetadata'') = Inr empty_object"
    using assms(5)
    by (cases "opt_get pf (opt_get pf body ''CallbackMetadata'') ''Item''")
      (simp_all add: collect_meta_def)
  moreover have "success_record pf empty_object =
      JObj [(''status'', JStr ''success''), (''amount'', JUndefined),
            (''receipt'', JUndefined), (''phone'', JUndefined), (''date'', JUndefined)]"
    by (simp add: success_record_def obj_get_def empty_object_def object_prototype_def
        object_prototype_names_def)
  ultimately show ?thesis
    using assms(1-4) by (simp add: mpesa_callback_def accepted_def obj_get_obj_set_same)
qed

theorem callback_success_without_items_witness:
  "\<forall>pf. mpesa_callback pf empty_object (notification bare_paid_callback) =
           (Reply 200 (JObj [(''ResultCode'', JNum (Fin 0)), (''ResultDesc'', JStr ''Accepted'')]),
            obj_set empty_object ''ws_1''
              (JObj [(''status'', JStr ''success''), (''amount'', JUndefined),
                     (''receipt'', JUndefined), (''phone'', JUndefined),
                     (''date'', JUndefined)]))"
proof
  fix pf
  show "mpesa_callback pf empty_object (notification bare_paid_callback) =
           (Reply 200 (JObj [(''ResultCode'', JNum (Fin 0)), (''ResultDesc'', JStr ''Accepted'')]),
            obj_set empty_object ''ws_1''
              (JObj [(''status'', JStr ''success''), (''amount'', JUndefined),
                     (''receipt'', JUndefined), (''phone'', JUndefined),
                     (''date'', JUndefined)]))"
    using callback_success_without_items[where pf = pf and body = bare_paid_callback
        and req_body = "notification bare_paid_callback" and key = "''ws_1''"
        and paymentStore = empty_object]
    by (simp add: run_defs bare_paid_callback_def)
qed

section \<open>The Status Reader\<close>

text \<open>
  An identifier that is neither a key of the store nor a name that the store inherits
  gets the pending placeholder.
\<close>

lemma status_unknown_key:
  assumes "truthy checkoutId" and "to_string pf checkoutId = Inr key"
    and "own paymentStore key = None" and "prototype paymentStore = ObjectPrototype"
    and "key \<notin> set object_prototype_names" and "key \<noteq> ''__proto__''"
  shows "stk_status pf paymentStore checkoutId = (Reply 200 pending_record, paymentStore)"
  using assms
  by (simp add: stk_status_def obj_get_def object_prototype_undefined or_else_def)

text \<open>
  Claim C5. A poll for an identifier that is not a key of the store is to return the
  record \<^verbatim>\<open>{status: "pending"}\<close>. The store is an object literal, so the read
  \<^verbatim>\<open>paymentStore[checkoutId]\<close> also finds what the object inherits: for the identifier
  \<^verbatim>\<open>constructor\<close>, which is no key of the empty store, it finds a function, which is
  truthy, and the handler answers with it instead of the placeholder.
\<close>

theorem status_inherited_key:
  "own empty_object ''constructor'' = None \<and>
   stk_status pf empty_object (JStr ''constructor'') =
     (Reply 200 (JBuiltin ''Object.prototype.constructor''), empty_object) \<and>
   JBuiltin ''Object.prototype.constructor'' \<noteq> pending_record"
  by (simp add: stk_status_def obj_get_def empty_object_def object_prototype_def
      object_prototype_names_def or_else_def pending_record_def)

section \<open>The Request Initiator\<close>

text \<open>
  Claim C6. An initiation request in which the payer phone or the amount is missing is
  answered with status 400; no call goes to the token provider or the gateway, and the
  store stays as it was.
\<close>

theorem push_missing_field:
  assumes "\<not> nullish req_body"
    and "opt_get pf req_body ''phone'' = JUndefined \<or> opt_get pf req_body ''amount'' = JUndefined"
  shows "stk_push pf e paymentStore req_body =
           (Reply 400 (JObj [(''errorMessage'', JStr ''phone and amount are required'')]),
            paymentStore, [])"
  using assms by (auto simp: stk_push_def)

theorem push_missing_field_witness:
  "\<forall>pf e st.
      stk_push pf e st (JObj [(''phone'', JStr ''254700000000'')]) =
        (Reply 400 (JObj [(''errorMessage'', JStr ''phone and amount are required'')]), st, [])
    \<and> stk_push pf e st (JObj [(''amount'', JNum (Fin 10))]) =
        (Reply 400 (JObj [(''errorMessage'', JStr ''phone and amount are required'')]), st, [])"
  using push_missing_field[where req_body = "JObj [(''phone'', JStr ''254700000000'')]"]
    push_missing_field[where req_body = "JObj [(''amount'', JNum (Fin 10))]"]
  by (simp add: run_defs)

text \<open>
  Claim C9. An initiation request in which both fields are present but the amount is 0
  or the payer phone is the empty string is rejected as if the field were missing: status
  400, no call to the outside, the store as it was, the same result as for the request
  without any field.
\<close>

theorem push_falsy_field:
  assumes "req_body = JObj fs"
    and "map_of fs ''phone'' = Some phone" and "map_of fs ''amount'' = Some amount"
    and "amount = JNum (Fin 0) \<or> phone = JStr []"
  shows "stk_push pf e paymentStore req_body =
           (Reply 400 (JObj [(''errorMessage'', JStr ''phone and amount are required'')]),
            paymentStore, [])
         \<and> stk_push pf e paymentStore req_body = stk_push pf e paymentStore (JObj [])"
  using assms
  by (auto simp: stk_push_def opt_get_def object_prototype_def object_prototype_names_def)

theorem push_falsy_field_witness:
  "\<forall>pf e st.
      stk_push pf e st (JObj [(''phone'', JStr ''254700000000''), (''amount'', JNum (Fin 0))]) =
        (Reply 400 (JObj [(''errorMessage'', JStr ''phone and amount are required'')]), st, [])
    \<and> stk_push pf e st (JObj [(''phone'', JStr []), (''amount'', JNum (Fin 10))]) =
        (Reply 400 (JObj [(''errorMessage'', JStr ''phone and amount are required'')]), st, [])"
  using push_falsy_field[where fs = "[(''phone'', JStr ''254700000000''), (''amount'', JNum (Fin 0))]"
      and phone = "JStr ''254700000000''" and amount = "JNum (Fin 0)"]
    push_falsy_field[where fs = "[(''phone'', JStr []), (''amount'', JNum (Fin 10))]"
      and phone = "JStr []" and amount = "JNum (Fin 10)"]
  by simp

subsection \<open>Failures of the token provider and of the gateway\<close>

lemma push_error_unfold:
  assumes "\<not> nullish req_body"
    and "truthy (opt_get pf req_body ''phone'')" and "truthy (opt_get pf req_body ''amount'')"
    and "fst (stk_push_try pf e paymentStore (opt_get pf req_body ''phone'')
           (opt_get pf req_body ''amount'') (opt_get pf req_body ''description'')) = Inl err"
  shows "fst (stk_push pf e paymentStore req_body) =
           Reply 500 (JObj [(''errorMessage'',
              or_else (response_error_message pf err) (JStr fallback_message))])
         \<and> fst (snd (stk_push pf e paymentStore req_body)) = paymentStore"
  using assms by (auto simp: stk_push_def Let_def split: prod.splits sum.splits)

text \<open>
  Claim C7. When the token acquisition fails, or the submission to the gateway does, the
  answer is status 500 with a message: the \<^verbatim>\<open>errorMessage\<close> of the error body that came
  with the failure when there is one, the fixed fallback message otherwise; and the store
  stays as it was.
\<close>

theorem push_failure:
  assumes "\<not> nullish req_body"
    and "truthy (opt_get pf req_body ''phone'')" and "truthy (opt_get pf req_body ''amount'')"
    and "getAccessToken pf e = Inl err \<or>
         (getAccessToken pf e = Inr token \<and> to_string pf token = Inr t \<and>
          math_ceil pf (opt_get pf req_body ''amount'') = Inr rounded \<and>
          stk_server e (''Bearer '' @ t)
            (stk_payload e rounded (opt_get pf req_body ''phone'')
               (opt_get pf req_body ''description'')) = Inl err)"
  shows "fst (stk_push pf e paymentStore req_body) =
           Reply 500 (JObj [(''errorMessage'',
              (case err of
                 HttpError (Some d) \<Rightarrow>
                   if truthy (opt_get pf d ''errorMessage'') then opt_get pf d ''errorMessage''
                   else JStr ''STK push failed. Please try again.''
               | _ \<Rightarrow> JStr ''STK push failed. Please try again.''))])
         \<and> fst (snd (stk_push pf e paymentStore req_body)) = paymentStore"
proof -
  have "fst (stk_push_try pf e paymentStore (opt_get pf req_body ''phone'')
           (opt_get pf req_body ''amount'') (opt_get pf req_body ''description'')) = Inl err"
    using assms(4) by (auto simp: stk_push_try_def Let_def)
  from push_error_unfold[OF assms(1-3) this]
  have both: "fst (stk_push pf e paymentStore req_body) =
           Reply 500 (JObj [(''errorMessage'',
              or_else (response_error_message pf err) (JStr fallback_message))])
         \<and> fst (snd (stk_push pf e paymentStore req_body)) = paymentStore" .
  show ?thesis
  proof (cases err)
    case TypeError
    with both show ?thesis by (simp add: or_else_def fallback_message_def)
  next
    case (HttpError r)
    with both show ?thesis
      by (cases r) (simp_all add: or_else_def fallback_message_def)
  qed
qed

theorem push_failure_witness:
  "\<forall>pf enc st.
      fst (stk_push pf
             (gateway_env enc
                (Inl (HttpError (Some (JObj [(''errorMessage'', JStr ''Invalid credentials'')]))))
                push_acknowledged)
             st push_request) =
        Reply 500 (JObj [(''errorMessage'', JStr ''Invalid credentials'')])
    \<and> fst (snd (stk_push pf
             (gateway_env enc
                (Inl (HttpError (Some (JObj [(''errorMessage'', JStr ''Invalid credentials'')]))))
                push_acknowledged)
             st push_request)) = st
    \<and> fst (stk_push pf (gateway_env enc token_granted (Inl (HttpError None))) st push_request) =
        Reply 500 (JObj [(''errorMessage'', JStr ''STK push failed. Please try again.'')])
    \<and> fst (snd (stk_push pf (gateway_env enc token_granted (Inl (HttpError None))) st
             push_request)) = st"
proof (intro allI)
  fix pf enc st
  let ?bad = "HttpError (Some (JObj [(''errorMessage'', JStr ''Invalid credentials'')]))"
  have a: "getAccessToken pf (gateway_env enc (Inl ?bad) push_acknowledged) = Inl ?bad"
    by (simp add: getAccessToken_def gateway_env_def)
  have b: "getAccessToken pf (gateway_env enc token_granted (Inl (HttpError None))) =
             Inr (JStr ''T'')"
    by (simp add: getAccessToken_def gateway_env_def token_granted_def)
  have c: "stk_server (gateway_env enc token_granted (Inl (HttpError None))) x y =
             Inl (HttpError None)" for x y
    by (simp add: gateway_env_def)
  have r: "\<not> nullish push_request" "truthy (opt_get pf push_request ''phone'')"
    "truthy (opt_get pf push_request ''amount'')"
    by (simp_all add: push_request_def run_defs)
  have m: "math_ceil pf (opt_get pf push_request ''amount'') = Inr (JNum (ceil_num (Fin (104 / 10))))"
    by (simp add: push_request_def run_defs math_ceil_def)
  show "fst (stk_push pf (gateway_env enc (Inl ?bad) push_acknowledged) st push_request) =
        Reply 500 (JObj [(''errorMessage'', JStr ''Invalid credentials'')])
    \<and> fst (snd (stk_push pf (gateway_env enc (Inl ?bad) push_acknowledged) st push_request)) = st
    \<and> fst (stk_push pf (gateway_env enc token_granted (Inl (HttpError None))) st push_request) =
        Reply 500 (JObj [(''errorMessage'', JStr ''STK push failed. Please try again.'')])
    \<and> fst (snd (stk_push pf (gateway_env enc token_granted (Inl (HttpError None))) st
             push_request)) = st"
    using push_failure[OF r, where e = "gateway_env enc (Inl ?bad) push_acknowledged"
        and err = ?bad and paymentStore = st]
      push_failure[OF r, where e = "gateway_env enc token_granted (Inl (HttpError None))"
        and err = "HttpError None" and token = "JStr ''T''" and t = "''T''"
        and rounded = "JNum (ceil_num (Fin (104 / 10)))" and paymentStore = st]
      a b c m
    by (simp add: run_defs)
qed

subsection \<open>The amount submitted\<close>

lemma ceil_sample: "\<lceil>52 / 5 :: rat\<rceil> = 11"
  by (rule ceiling_unique) simp_all

text \<open>
  Claim C8. For a valid initiation request, one with a payer phone and a finite amount
  other than 0, every submission to the gateway carries as \<^verbatim>\<open>Amount\<close> the amount of the
  request rounded up to the nearest integer, and the submission is made once the token is
  acquired. An amount of 10.4 is submitted as 11.
\<close>

theorem push_rounds_up:
  assumes "\<not> nullish req_body"
    and "truthy (opt_get pf req_body ''phone'')"
    and "opt_get pf req_body ''amount'' = JNum (Fin q)" and "q \<noteq> 0"
  shows "(\<forall>bearer payload.
            StkPost bearer payload \<in> set (snd (snd (stk_push pf e paymentStore req_body))) \<longrightarrow>
            get_prop pf payload ''Amount'' = Inr (JNum (Fin (of_int \<lceil>q\<rceil>))))
       \<and> (getAccessToken pf e = Inr token \<longrightarrow> to_string pf token = Inr t \<longrightarrow>
            (\<exists>payload. StkPost (''Bearer '' @ t) payload
                \<in> set (snd (snd (stk_push pf e paymentStore req_body)))))"
  using assms
  by (auto simp: stk_push_def stk_push_try_def math_ceil_def stk_payload_def Let_def
      split: prod.splits sum.splits if_splits)

theorem push_rounds_up_witness:
  "\<forall>pf enc st. \<exists>payload.
      snd (snd (stk_push pf (gateway_env enc token_granted push_acknowledged) st push_request)) =
        [OAuthGet (''Basic '' @ enc ''key:secret''), StkPost ''Bearer T'' payload]
    \<and> get_prop pf payload ''Amount'' = Inr (JNum (Fin 11))"
proof (intro allI)
  fix pf enc st
  let ?e = "gateway_env enc token_granted push_acknowledged"
  have tok: "getAccessToken pf ?e = Inr (JStr ''T'')"
    by (simp add: getAccessToken_def gateway_env_def token_granted_def)
  have r: "\<not> nullish push_request" "truthy (opt_get pf push_request ''phone'')"
    "opt_get pf push_request ''amount'' = JNum (Fin (104 / 10))" "(104 / 10 :: rat) \<noteq> 0"
    by (simp_all add: push_request_def run_defs)
  have "\<exists>payload. snd (snd (stk_push pf ?e st push_request)) =
        [OAuthGet (''Basic '' @ enc ''key:secret''), StkPost ''Bearer T'' payload]"
    using tok r(1-3)
    by (simp add: stk_push_def stk_push_try_def math_ceil_def push_acknowledged_def
        oauth_header_def env_text_def gateway_env_def)
  then obtain payload where p: "snd (snd (stk_push pf ?e st push_request)) =
        [OAuthGet (''Basic '' @ enc ''key:secret''), StkPost ''Bearer T'' payload]" ..
  have "get_prop pf payload ''Amount'' = Inr (JNum (Fin (of_int \<lceil>104 / 10 :: rat\<rceil>)))"
    using push_rounds_up[OF r, of ?e st] p by simp
  then have "get_prop pf payload ''Amount'' = Inr (JNum (Fin 11))"
    by (simp add: ceil_sample)
  with p show "\<exists>payload.
      snd (snd (stk_push pf ?e st push_request)) =
        [OAuthGet (''Basic '' @ enc ''key:secret''), StkPost ''Bearer T'' payload]
    \<and> get_prop pf payload ''Amount'' = Inr (JNum (Fin 11))"
    by blast
qed

section \<open>The life of a record\<close>










end
